theory Spec2Isabelle
  imports Main
begin

section \<open>The isolation model of TypeCheckConcurrency.h\<close>

text \<open>
  The header declares three enumerations and the class \<open>ActorIsolationRestriction\<close>.
  The class is the only part of the file with function bodies: two accessors guarded by
  an \<open>assert\<close>, four factory functions and the private constructor they share.
\<close>

subsection \<open>Enumerations\<close>

datatype ConcurrentReferenceKind =
    SynchronousAsAsyncCall
  | CrossActor
  | LocalCapture
  | ConcurrentFunction

datatype Kind =
    Unrestricted
  | Unsafe
  | CrossActorSelf
  | ActorSelf
  | GlobalActor
  | GlobalActorUnsafe

datatype ConcurrentValueCheck =
    Explicit
  | ImpliedByStandardProtocol
  | Implicit

subsection \<open>Pointers and the payload union\<close>

text \<open>
  \<open>DeclContext *\<close>, \<open>ClassDecl *\<close> and \<open>TypeBase *\<close> are addresses. \<open>Type\<close> comes
  from \<open>swift/AST/Type.h\<close>, which the header includes; the header uses it only through
  \<open>Type(p)\<close>, which wraps a \<open>TypeBase *\<close>, and \<open>getPointer()\<close>, which gives the pointer
  back, so it is taken as that wrapper.
\<close>

type_synonym DeclContext_ptr = nat
type_synonym ClassDecl_ptr = nat
type_synonym TypeBase_ptr = nat
type_synonym SourceLoc = nat

datatype Type = Type (getPointer: TypeBase_ptr)

text \<open>
  The member \<open>data\<close> is a union of three pointers. The private constructor does not
  initialise it, and each factory writes at most one member. The model records which
  member was written last; reading another member, or reading before any write, is not a
  value of the program and is reported as \<open>InactiveUnionMember\<close>.
\<close>

datatype data_union =
    Uninitialized
  | localContext DeclContext_ptr
  | actorClass ClassDecl_ptr
  | globalActor TypeBase_ptr

datatype error =
    AssertionFailed
  | InactiveUnionMember

subsection \<open>The class ActorIsolationRestriction\<close>

record ActorIsolationRestriction =
  data :: data_union
  kind :: Kind
  isCrossActor :: bool

text \<open>The private constructor: \<open>kind(kind), isCrossActor(isCrossActor)\<close>, body empty.\<close>

definition ActorIsolationRestriction_ctor :: "Kind \<Rightarrow> bool \<Rightarrow> ActorIsolationRestriction" where
  "ActorIsolationRestriction_ctor k b = \<lparr>data = Uninitialized, kind = k, isCrossActor = b\<rparr>"

text \<open>
  The two assignments the factories make to an object after its construction,
  \<open>result.data.actorClass = actorClass\<close> and \<open>result.data.globalActor = ...\<close>.
\<close>

definition assign_actorClass ::
  "ActorIsolationRestriction \<Rightarrow> ClassDecl_ptr \<Rightarrow> ActorIsolationRestriction" where
  "assign_actorClass result c = result\<lparr>data := actorClass c\<rparr>"

definition assign_globalActor ::
  "ActorIsolationRestriction \<Rightarrow> TypeBase_ptr \<Rightarrow> ActorIsolationRestriction" where
  "assign_globalActor result p = result\<lparr>data := globalActor p\<rparr>"

definition getKind :: "ActorIsolationRestriction \<Rightarrow> Kind" where
  "getKind r = kind r"

text \<open>\<open>operator Kind() const\<close>, the implicit conversion.\<close>

definition operator_Kind :: "ActorIsolationRestriction \<Rightarrow> Kind" where
  "operator_Kind r = kind r"

text \<open>
  The accessors, with assertions enabled (\<open>NDEBUG\<close> not defined): the \<open>assert\<close> is the
  first statement, the read of the union member the second.
\<close>

definition getActorClass :: "ActorIsolationRestriction \<Rightarrow> error + ClassDecl_ptr" where
  "getActorClass r =
     (if kind r = ActorSelf \<or> kind r = CrossActorSelf
      then (case data r of actorClass c \<Rightarrow> Inr c | _ \<Rightarrow> Inl InactiveUnionMember)
      else Inl AssertionFailed)"

definition getGlobalActor :: "ActorIsolationRestriction \<Rightarrow> error + Type" where
  "getGlobalActor r =
     (if kind r = GlobalActor \<or> kind r = GlobalActorUnsafe
      then (case data r of globalActor p \<Rightarrow> Inr (Type p) | _ \<Rightarrow> Inl InactiveUnionMember)
      else Inl AssertionFailed)"

definition forUnrestricted :: ActorIsolationRestriction where
  "forUnrestricted = ActorIsolationRestriction_ctor Unrestricted False"

definition forUnsafe :: ActorIsolationRestriction where
  "forUnsafe = ActorIsolationRestriction_ctor Unsafe False"

definition forActorSelf :: "ClassDecl_ptr \<Rightarrow> bool \<Rightarrow> ActorIsolationRestriction" where
  "forActorSelf c isCross =
     assign_actorClass
       (ActorIsolationRestriction_ctor (if isCross then CrossActorSelf else ActorSelf) isCross) c"

definition forGlobalActor :: "Type \<Rightarrow> bool \<Rightarrow> bool \<Rightarrow> ActorIsolationRestriction" where
  "forGlobalActor t isCross isUnsafe =
     assign_globalActor
       (ActorIsolationRestriction_ctor (if isUnsafe then GlobalActorUnsafe else GlobalActor) isCross)
       (getPointer t)"

subsection \<open>Restrictions the factories can produce\<close>

text \<open>
  A restriction is well formed when its three members fit together the way the four
  factories leave them: the union member that was written is the one the kind calls
  for, and the flag agrees with the kind where the kind fixes it.
\<close>

definition wellFormed :: "ActorIsolationRestriction \<Rightarrow> bool" where
  "wellFormed r =
     (case kind r of
        Unrestricted \<Rightarrow> data r = Uninitialized \<and> \<not> isCrossActor r
      | Unsafe \<Rightarrow> data r = Uninitialized \<and> \<not> isCrossActor r
      | CrossActorSelf \<Rightarrow> (case data r of actorClass c \<Rightarrow> isCrossActor r | _ \<Rightarrow> False)
      | ActorSelf \<Rightarrow> (case data r of actorClass c \<Rightarrow> \<not> isCrossActor r | _ \<Rightarrow> False)
      | GlobalActor \<Rightarrow> (case data r of globalActor p \<Rightarrow> True | _ \<Rightarrow> False)
      | GlobalActorUnsafe \<Rightarrow> (case data r of globalActor p \<Rightarrow> True | _ \<Rightarrow> False))"

section \<open>The boundary checker\<close>

text \<open>
  The header declares \<open>forDeclaration\<close> (line 169) and
  \<open>diagnoseNonConcurrentTypesInReference\<close> (lines 200-202) and gives neither a body.
  The resolver is taken as a parameter, together with the queries the checker makes
  to the declaration and type model; the checker is written from the algorithm of the
  specification.
\<close>

text \<open>
  Modelled from the spec: the collaborators of section 4.3, none of which is in the
  sources. \<open>forDeclaration\<close> is the resolver of section 4.1 (only declared in the
  header), \<open>contextDecl\<close> gives the declaration associated with a referencing context,
  \<open>referencedTypes\<close> the named types a reference moves across the boundary (parameter
  and result types of a callable, the stored type of a property), and \<open>isShareable\<close>
  is the shareability check of section 4.2.
\<close>

record ('decl, 'dc) Collaborators =
  forDeclaration :: "'decl \<Rightarrow> ActorIsolationRestriction"
  contextDecl :: "'dc \<Rightarrow> 'decl"
  referencedTypes :: "'decl \<Rightarrow> (string \<times> Type) list"
  isShareable :: "Type \<Rightarrow> bool"

text \<open>
  Modelled from the spec: the diagnostics of sections 4.3 and 8, which the sources do
  not define. One is raised for an \<open>Unsafe\<close> domain, one for a member isolated to an
  actor that is referenced from outside it, one for each non-shareable type, naming the
  member or parameter. All carry the location and the reference kind: the kind "selects
  diagnostic wording" and "does not change the soundness check itself" (section 3).
\<close>

datatype Diagnostic =
    UnsafeDomainReference SourceLoc ConcurrentReferenceKind
  | IsolatedMemberReference SourceLoc ConcurrentReferenceKind
  | NonShareableType string SourceLoc ConcurrentReferenceKind

text \<open>
  Modelled from the spec: \<open>InstanceSelf(T, crossDomain = false)\<close>, a member isolated
  to instances of an actor that is not marked as safe to reach from outside
  (section 3). The header says of the kind \<open>ActorSelf\<close> that references "are only
  permitted from within the actor's isolation domain" (lines 85-87).
\<close>

definition isolatedToActor :: "ActorIsolationRestriction \<Rightarrow> bool" where
  "isolatedToActor r =
     ((kind r = ActorSelf \<or> kind r = CrossActorSelf) \<and> \<not> isCrossActor r)"

text \<open>
  Modelled from the spec: "If domains are equal (same actor instance, same global
  domain, or both \<open>Unrestricted\<close>), no crossing occurs" (section 4.3). A restriction
  identifies an actor by its class and a global domain by its type, read through the
  accessors of the class.
\<close>

definition sameDomain :: "ActorIsolationRestriction \<Rightarrow> ActorIsolationRestriction \<Rightarrow> bool" where
  "sameDomain a b =
     ((kind a = Unrestricted \<and> kind b = Unrestricted)
      \<or> (case (getActorClass a, getActorClass b) of (Inr x, Inr y) \<Rightarrow> x = y | _ \<Rightarrow> False)
      \<or> (case (getGlobalActor a, getGlobalActor b) of (Inr x, Inr y) \<Rightarrow> x = y | _ \<Rightarrow> False))"

text \<open>
  Modelled from the spec: "for every non-shareable type found, emit one diagnostic
  naming the member/parameter and the kind" (section 4.3).
\<close>

definition nonShareableDiagnostics ::
  "(Type \<Rightarrow> bool) \<Rightarrow> (string \<times> Type) list \<Rightarrow> SourceLoc \<Rightarrow> ConcurrentReferenceKind
     \<Rightarrow> Diagnostic list" where
  "nonShareableDiagnostics shareable tys loc refKind =
     map (\<lambda>nt. NonShareableType (fst nt) loc refKind)
       (filter (\<lambda>nt. \<not> shareable (snd nt)) tys)"

text \<open>
  Modelled from the spec: the algorithm of section 4.3 on the two resolved restrictions,
  \<open>rd\<close> of the declaration and \<open>rc\<close> of the referencing context. Equal domains give
  \<open>false\<close>. A global domain that was inferred (\<open>GlobalActorUnsafe\<close>) suppresses the
  diagnostic when the context has unspecified isolation (\<open>Unrestricted\<close>). Otherwise
  "an \<open>Unsafe\<close> domain on either side is always reported regardless of type
  shareability", a member isolated to an actor is reported when it is referenced from
  another domain (section 8, scenario 2: a stored property of an actor, of type \<open>Int\<close>,
  accessed from a free function is one violation), each non-shareable type is reported,
  and the result is \<open>true\<close> when anything was reported.
\<close>

definition checkCrossing ::
  "ActorIsolationRestriction \<Rightarrow> ActorIsolationRestriction \<Rightarrow> (string \<times> Type) list
     \<Rightarrow> (Type \<Rightarrow> bool) \<Rightarrow> SourceLoc \<Rightarrow> ConcurrentReferenceKind \<Rightarrow> bool \<times> Diagnostic list" where
  "checkCrossing rd rc tys shareable loc refKind =
     (if sameDomain rd rc then (False, [])
      else if kind rd = GlobalActorUnsafe \<and> kind rc = Unrestricted then (False, [])
      else
        (let ds =
           (if kind rd = Unsafe \<or> kind rc = Unsafe
            then [UnsafeDomainReference loc refKind] else [])
           @ (if isolatedToActor rd then [IsolatedMemberReference loc refKind] else [])
           @ nonShareableDiagnostics shareable tys loc refKind
         in (ds \<noteq> [], ds)))"

text \<open>
  Modelled from the spec: the entry point declared at lines 200-202, whose body is not
  in the sources: "resolve the declaration's own isolation via 4.1 and the caller
  context's isolation via the same resolver (pass the context's associated
  declaration)", then check the crossing. The result is the returned flag and the
  diagnostics emitted.
\<close>

definition diagnoseNonConcurrentTypesInReference ::
  "('decl, 'dc) Collaborators \<Rightarrow> 'decl \<Rightarrow> 'dc \<Rightarrow> SourceLoc \<Rightarrow> ConcurrentReferenceKind
     \<Rightarrow> bool \<times> Diagnostic list" where
  "diagnoseNonConcurrentTypesInReference env declRef dc loc refKind =
     checkCrossing (forDeclaration env declRef) (forDeclaration env (contextDecl env dc))
       (referencedTypes env declRef) (isShareable env) loc refKind"

subsection \<open>A small program to evaluate the checker on\<close>

text \<open>
  Five declarations: \<open>0\<close> is a global variable with no isolation attribute (resolved
  \<open>Unsafe\<close>), \<open>1\<close> a free function taking one shareable parameter (\<open>Unrestricted\<close>),
  \<open>2\<close> and \<open>3\<close> functions of the global actor \<open>Type 20\<close> taking a parameter of the
  non-shareable type \<open>Type 11\<close>, the isolation of \<open>2\<close> inferred and that of \<open>3\<close>
  written, and every other number a stored property of the actor class \<open>7\<close>, of the
  shareable type \<open>Type 10\<close>. Every declaration is also a context, the context of its
  own body.
\<close>

definition sampleProgram :: "(nat, nat) Collaborators" where
  "sampleProgram =
     \<lparr>forDeclaration =
        (\<lambda>d. if d = 0 then forUnsafe
             else if d = 1 then forUnrestricted
             else if d = 2 then forGlobalActor (Type 20) False True
             else if d = 3 then forGlobalActor (Type 20) False False
             else forActorSelf 7 False),
      contextDecl = (\<lambda>dc. dc),
      referencedTypes =
        (\<lambda>d. if d = 0 then []
             else if d = 1 then [(''x'', Type 10)]
             else if d = 2 \<or> d = 3 then [(''buffer'', Type 11)]
             else [(''p'', Type 10)]),
      isShareable = (\<lambda>t. t \<noteq> Type 11)\<rparr>"

section \<open>Properties of the factories and accessors\<close>

lemma wellFormed_forUnrestricted: "wellFormed forUnrestricted"
  by (simp add: wellFormed_def forUnrestricted_def ActorIsolationRestriction_ctor_def)

lemma wellFormed_forUnsafe: "wellFormed forUnsafe"
  by (simp add: wellFormed_def forUnsafe_def ActorIsolationRestriction_ctor_def)

lemma wellFormed_forActorSelf: "wellFormed (forActorSelf c b)"
  by (simp add: wellFormed_def forActorSelf_def assign_actorClass_def
      ActorIsolationRestriction_ctor_def)

lemma wellFormed_forGlobalActor: "wellFormed (forGlobalActor t b u)"
  by (simp add: wellFormed_def forGlobalActor_def assign_globalActor_def
      ActorIsolationRestriction_ctor_def)

text \<open>Conversely, every well-formed restriction is the result of one of the factories.\<close>

lemma wellFormed_is_factory_result:
  assumes "wellFormed r"
  shows "r = forUnrestricted \<or> r = forUnsafe
        \<or> (\<exists>c. r = forActorSelf c (isCrossActor r))
        \<or> (\<exists>t u. r = forGlobalActor t (isCrossActor r) u)"
proof (cases "kind r")
  case Unrestricted
  with assms have "r = forUnrestricted"
    by (simp add: wellFormed_def forUnrestricted_def ActorIsolationRestriction_ctor_def)
  then show ?thesis by simp
next
  case Unsafe
  with assms have "r = forUnsafe"
    by (simp add: wellFormed_def forUnsafe_def ActorIsolationRestriction_ctor_def)
  then show ?thesis by simp
next
  case CrossActorSelf
  with assms obtain c where "data r = actorClass c" and "isCrossActor r"
    by (auto simp: wellFormed_def split: data_union.splits)
  with CrossActorSelf have "r = forActorSelf c (isCrossActor r)"
    by (simp add: forActorSelf_def assign_actorClass_def ActorIsolationRestriction_ctor_def)
  then show ?thesis by blast
next
  case ActorSelf
  with assms obtain c where "data r = actorClass c" and "\<not> isCrossActor r"
    by (auto simp: wellFormed_def split: data_union.splits)
  with ActorSelf have "r = forActorSelf c (isCrossActor r)"
    by (simp add: forActorSelf_def assign_actorClass_def ActorIsolationRestriction_ctor_def)
  then show ?thesis by blast
next
  case GlobalActor
  with assms obtain p where "data r = globalActor p"
    by (auto simp: wellFormed_def split: data_union.splits)
  with GlobalActor have "r = forGlobalActor (Type p) (isCrossActor r) False"
    by (simp add: forGlobalActor_def assign_globalActor_def ActorIsolationRestriction_ctor_def)
  then show ?thesis by blast
next
  case GlobalActorUnsafe
  with assms obtain p where "data r = globalActor p"
    by (auto simp: wellFormed_def split: data_union.splits)
  with GlobalActorUnsafe have "r = forGlobalActor (Type p) (isCrossActor r) True"
    by (simp add: forGlobalActor_def assign_globalActor_def ActorIsolationRestriction_ctor_def)
  then show ?thesis by blast
qed

subsection \<open>Construction and payload access\<close>

text \<open>
  Claim C9. Construction and payload access round-trip: for every actor class \<open>c\<close> and
  flag \<open>b\<close>, \<open>forActorSelf c b\<close> has \<open>isCrossActor = b\<close> and \<open>getActorClass\<close> returns
  \<open>c\<close>; for every global-actor type \<open>t\<close> and flags \<open>b\<close>, \<open>u\<close>,
  \<open>forGlobalActor t b u\<close> has \<open>isCrossActor = b\<close> and \<open>getGlobalActor\<close> returns \<open>t\<close>.
  Neither accessor fails on them, so both kinds of restriction carry the identifying
  type they were constructed with.
\<close>

theorem construction_access_roundtrip:
  "isCrossActor (forActorSelf c b) = b
   \<and> getActorClass (forActorSelf c b) = Inr c
   \<and> isCrossActor (forGlobalActor t b u) = b
   \<and> getGlobalActor (forGlobalActor t b u) = Inr t"
  by (simp add: forActorSelf_def forGlobalActor_def assign_actorClass_def
      assign_globalActor_def ActorIsolationRestriction_ctor_def getActorClass_def
      getGlobalActor_def)

text \<open>
  Claim C10. Kind and flag cohere on everything the public factories build:
  \<open>forUnrestricted\<close> and \<open>forUnsafe\<close> have \<open>isCrossActor = false\<close>; a restriction
  built by \<open>forActorSelf\<close> has kind \<open>CrossActorSelf\<close> exactly when its flag is set,
  and kind \<open>ActorSelf\<close> otherwise. The only writes the class makes to an object after
  its construction are the two assignments to the union, and they leave \<open>kind\<close> and
  \<open>isCrossActor\<close> as the constructor set them.
\<close>

theorem kind_flag_coherence:
  "\<not> isCrossActor forUnrestricted
   \<and> \<not> isCrossActor forUnsafe
   \<and> (kind (forActorSelf c b) = CrossActorSelf) = isCrossActor (forActorSelf c b)
   \<and> (kind (forActorSelf c b) = ActorSelf) = (\<not> isCrossActor (forActorSelf c b))
   \<and> kind (assign_actorClass r c') = kind r
   \<and> isCrossActor (assign_actorClass r c') = isCrossActor r
   \<and> kind (assign_globalActor r p) = kind r
   \<and> isCrossActor (assign_globalActor r p) = isCrossActor r
   \<and> kind (ActorIsolationRestriction_ctor k f) = k
   \<and> isCrossActor (ActorIsolationRestriction_ctor k f) = f"
  by (simp add: forUnrestricted_def forUnsafe_def forActorSelf_def assign_actorClass_def
      assign_globalActor_def ActorIsolationRestriction_ctor_def)

text \<open>
  Claim C7. The accessors have preconditions on the kind. \<open>getActorClass\<close> trips its
  assertion exactly when the kind is neither \<open>ActorSelf\<close> nor \<open>CrossActorSelf\<close>, and
  \<open>getGlobalActor\<close> exactly when it is neither \<open>GlobalActor\<close> nor
  \<open>GlobalActorUnsafe\<close>. On a restriction built by the factories, an accessor called
  under its precondition returns the payload stored in the union, so a caller that
  looks at the kind first never reaches the assertion.
\<close>

theorem accessor_preconditions:
  "(getActorClass r = Inl AssertionFailed)
     = (\<not> (kind r = ActorSelf \<or> kind r = CrossActorSelf))
   \<and> (getGlobalActor r = Inl AssertionFailed)
     = (\<not> (kind r = GlobalActor \<or> kind r = GlobalActorUnsafe))
   \<and> (wellFormed r \<longrightarrow>
        (kind r = ActorSelf \<or> kind r = CrossActorSelf \<longrightarrow>
           (\<exists>c. data r = actorClass c \<and> getActorClass r = Inr c))
        \<and> (kind r = GlobalActor \<or> kind r = GlobalActorUnsafe \<longrightarrow>
           (\<exists>p. data r = globalActor p \<and> getGlobalActor r = Inr (Type p))))"
proof (intro conjI impI)
  show "(getActorClass r = Inl AssertionFailed)
          = (\<not> (kind r = ActorSelf \<or> kind r = CrossActorSelf))"
    by (simp add: getActorClass_def split: data_union.splits)
next
  show "(getGlobalActor r = Inl AssertionFailed)
          = (\<not> (kind r = GlobalActor \<or> kind r = GlobalActorUnsafe))"
    by (simp add: getGlobalActor_def split: data_union.splits)
next
  assume "wellFormed r" and "kind r = ActorSelf \<or> kind r = CrossActorSelf"
  then show "\<exists>c. data r = actorClass c \<and> getActorClass r = Inr c"
    by (auto simp: wellFormed_def getActorClass_def split: data_union.splits)
next
  assume "wellFormed r" and "kind r = GlobalActor \<or> kind r = GlobalActorUnsafe"
  then show "\<exists>p. data r = globalActor p \<and> getGlobalActor r = Inr (Type p)"
    by (auto simp: wellFormed_def getGlobalActor_def split: data_union.splits)
qed

theorem accessor_preconditions_witness:
  "wellFormed (forActorSelf 7 True)
   \<and> kind (forActorSelf 7 True) = CrossActorSelf
   \<and> data (forActorSelf 7 True) = actorClass 7
   \<and> getActorClass (forActorSelf 7 True) = Inr 7
   \<and> getGlobalActor (forActorSelf 7 True) = Inl AssertionFailed"
  using accessor_preconditions [of "forActorSelf 7 True"] wellFormed_forActorSelf [of 7 True]
  by (simp add: forActorSelf_def assign_actorClass_def ActorIsolationRestriction_ctor_def)

section \<open>Properties of the boundary checker\<close>

lemma sameDomain_Unsafe_left: "kind a = Unsafe \<Longrightarrow> \<not> sameDomain a b"
  by (simp add: sameDomain_def getActorClass_def getGlobalActor_def)

lemma sameDomain_forGlobalActor_flag:
  "sameDomain (forGlobalActor t b True) rc = sameDomain (forGlobalActor t b False) rc"
  by (simp add: sameDomain_def getActorClass_def getGlobalActor_def forGlobalActor_def
      assign_globalActor_def ActorIsolationRestriction_ctor_def)

lemma sameDomain_forGlobalActor_Unrestricted:
  "kind rc = Unrestricted \<Longrightarrow> \<not> sameDomain (forGlobalActor t b u) rc"
  by (simp add: sameDomain_def getActorClass_def getGlobalActor_def forGlobalActor_def
      assign_globalActor_def ActorIsolationRestriction_ctor_def)

lemma isolatedToActor_forGlobalActor: "\<not> isolatedToActor (forGlobalActor t b u)"
  by (simp add: isolatedToActor_def forGlobalActor_def assign_globalActor_def
      ActorIsolationRestriction_ctor_def)

lemma nonShareableDiagnostics_empty:
  "(nonShareableDiagnostics shareable tys loc refKind = [])
     = (\<forall>nt \<in> set tys. shareable (snd nt))"
  by (simp add: nonShareableDiagnostics_def filter_empty_conv)

lemma sampleProgram_simps:
  "forDeclaration sampleProgram d =
     (if d = 0 then forUnsafe
      else if d = 1 then forUnrestricted
      else if d = 2 then forGlobalActor (Type 20) False True
      else if d = 3 then forGlobalActor (Type 20) False False
      else forActorSelf 7 False)"
  "contextDecl sampleProgram dc = dc"
  "referencedTypes sampleProgram d =
     (if d = 0 then [] else if d = 1 then [(''x'', Type 10)]
      else if d = 2 \<or> d = 3 then [(''buffer'', Type 11)] else [(''p'', Type 10)])"
  "isShareable sampleProgram t = (t \<noteq> Type 11)"
  by (simp_all add: sampleProgram_def)

lemma factory_simps:
  "kind forUnsafe = Unsafe" "data forUnsafe = Uninitialized"
  "kind forUnrestricted = Unrestricted" "data forUnrestricted = Uninitialized"
  "kind (forGlobalActor t b u) = (if u then GlobalActorUnsafe else GlobalActor)"
  "data (forGlobalActor t b u) = globalActor (getPointer t)"
  by (simp_all add: forUnsafe_def forUnrestricted_def forGlobalActor_def
      assign_globalActor_def ActorIsolationRestriction_ctor_def)

text \<open>
  Claim C1. For every declaration whose resolved restriction is \<open>Unsafe\<close>, every
  referencing context and every reference kind, the boundary check returns \<open>true\<close>
  and emits a diagnostic for the unsafe domain, whatever types the reference moves
  and whether or not they are shareable.
\<close>

theorem unsafe_declaration_always_reported:
  assumes "kind (forDeclaration env d) = Unsafe"
  shows "fst (diagnoseNonConcurrentTypesInReference env d dc loc refKind)
         \<and> UnsafeDomainReference loc refKind
             \<in> set (snd (diagnoseNonConcurrentTypesInReference env d dc loc refKind))"
  using assms
  by (simp add: diagnoseNonConcurrentTypesInReference_def checkCrossing_def
      sameDomain_Unsafe_left Let_def)

theorem unsafe_declaration_always_reported_witness:
  "kind (forDeclaration sampleProgram 0) = Unsafe
   \<and> fst (diagnoseNonConcurrentTypesInReference sampleProgram 0 1 5 CrossActor)
   \<and> UnsafeDomainReference 5 CrossActor
       \<in> set (snd (diagnoseNonConcurrentTypesInReference sampleProgram 0 1 5 CrossActor))"
proof -
  have h: "kind (forDeclaration sampleProgram 0) = Unsafe"
    by (simp add: sampleProgram_simps factory_simps)
  from unsafe_declaration_always_reported [OF h, of 1 5 CrossActor] h
  show ?thesis by simp
qed

subsection \<open>The scenarios of the specification\<close>

text \<open>
  Section 8, scenarios 1 and 2: a stored property of type \<open>Int\<close> on an actor,
  referenced from a method of the same actor, is not reported; referenced from a free
  function it is reported once, with the kind \<open>CrossActor\<close>.
\<close>

lemma scenario_same_actor:
  "diagnoseNonConcurrentTypesInReference sampleProgram 4 5 9 CrossActor = (False, [])"
  by (simp add: diagnoseNonConcurrentTypesInReference_def checkCrossing_def
      sampleProgram_simps sameDomain_def getActorClass_def forActorSelf_def
      assign_actorClass_def ActorIsolationRestriction_ctor_def)

lemma scenario_outside_actor:
  "diagnoseNonConcurrentTypesInReference sampleProgram 4 1 9 CrossActor
     = (True, [IsolatedMemberReference 9 CrossActor])"
  by (simp add: diagnoseNonConcurrentTypesInReference_def checkCrossing_def
      sampleProgram_simps sameDomain_def getActorClass_def getGlobalActor_def
      isolatedToActor_def nonShareableDiagnostics_def forActorSelf_def forUnrestricted_def
      assign_actorClass_def ActorIsolationRestriction_ctor_def)

subsection \<open>The unsafe flag of a global-actor restriction\<close>

text \<open>
  Claim C8. \<open>forGlobalActor t b u\<close> has kind \<open>GlobalActorUnsafe\<close> when \<open>u\<close> is true
  and \<open>GlobalActor\<close> when it is false. The \<open>GlobalActorUnsafe\<close> variant relaxes
  diagnostics only for contexts whose own isolation is unspecified: referenced from an
  \<open>Unrestricted\<close> context it is never reported, where the \<open>GlobalActor\<close> variant is
  reported as soon as a referenced type is not shareable; referenced from any other
  context the two variants are checked alike.
\<close>

theorem forGlobalActor_unsafe_flag:
  "kind (forGlobalActor t b u) = (if u then GlobalActorUnsafe else GlobalActor)
   \<and> getKind (forGlobalActor t b u) = kind (forGlobalActor t b u)
   \<and> (kind rc = Unrestricted \<longrightarrow>
        checkCrossing (forGlobalActor t b True) rc tys shareable loc refKind = (False, []))
   \<and> (kind rc = Unrestricted \<and> (\<exists>nt \<in> set tys. \<not> shareable (snd nt)) \<longrightarrow>
        fst (checkCrossing (forGlobalActor t b False) rc tys shareable loc refKind))
   \<and> (kind rc \<noteq> Unrestricted \<longrightarrow>
        checkCrossing (forGlobalActor t b True) rc tys shareable loc refKind
          = checkCrossing (forGlobalActor t b False) rc tys shareable loc refKind)"
proof (intro conjI impI)
  show "kind (forGlobalActor t b u) = (if u then GlobalActorUnsafe else GlobalActor)"
    by (simp add: factory_simps)
next
  show "getKind (forGlobalActor t b u) = kind (forGlobalActor t b u)"
    by (simp add: getKind_def)
next
  assume "kind rc = Unrestricted"
  then show "checkCrossing (forGlobalActor t b True) rc tys shareable loc refKind = (False, [])"
    by (simp add: checkCrossing_def factory_simps)
next
  assume "kind rc = Unrestricted \<and> (\<exists>nt \<in> set tys. \<not> shareable (snd nt))"
  then have "kind rc = Unrestricted"
    and "nonShareableDiagnostics shareable tys loc refKind \<noteq> []"
    by (simp_all add: nonShareableDiagnostics_empty)
  then show "fst (checkCrossing (forGlobalActor t b False) rc tys shareable loc refKind)"
    by (simp add: checkCrossing_def factory_simps sameDomain_forGlobalActor_Unrestricted)
next
  assume "kind rc \<noteq> Unrestricted"
  then show "checkCrossing (forGlobalActor t b True) rc tys shareable loc refKind
               = checkCrossing (forGlobalActor t b False) rc tys shareable loc refKind"
    by (simp add: checkCrossing_def sameDomain_forGlobalActor_flag factory_simps
        isolatedToActor_forGlobalActor)
qed

theorem forGlobalActor_unsafe_flag_witness:
  "kind forUnrestricted = Unrestricted
   \<and> \<not> isShareable sampleProgram (Type 11)
   \<and> checkCrossing (forGlobalActor (Type 20) False True) forUnrestricted
        [(''buffer'', Type 11)] (isShareable sampleProgram) 5 CrossActor = (False, [])
   \<and> fst (checkCrossing (forGlobalActor (Type 20) False False) forUnrestricted
        [(''buffer'', Type 11)] (isShareable sampleProgram) 5 CrossActor)
   \<and> kind (forActorSelf 7 False) = ActorSelf
   \<and> checkCrossing (forGlobalActor (Type 20) False True) (forActorSelf 7 False)
        [(''buffer'', Type 11)] (isShareable sampleProgram) 5 CrossActor
       = checkCrossing (forGlobalActor (Type 20) False False) (forActorSelf 7 False)
        [(''buffer'', Type 11)] (isShareable sampleProgram) 5 CrossActor"
proof -
  have k: "kind (forActorSelf 7 False) = ActorSelf"
    by (simp add: forActorSelf_def assign_actorClass_def ActorIsolationRestriction_ctor_def)
  from forGlobalActor_unsafe_flag [where t = "Type 20" and b = False and u = True
      and rc = forUnrestricted and tys = "[(''buffer'', Type 11)]"
      and shareable = "isShareable sampleProgram" and loc = 5 and refKind = CrossActor]
    forGlobalActor_unsafe_flag [where t = "Type 20" and b = False and u = True
      and rc = "forActorSelf 7 False" and tys = "[(''buffer'', Type 11)]"
      and shareable = "isShareable sampleProgram" and loc = 5 and refKind = CrossActor]
    k
  show ?thesis
    by (simp add: sampleProgram_simps factory_simps)
qed

end
